theory Spec2Isabelle
  imports Complex_Main
begin

section \<open>The metrics store of \<^verbatim>\<open>src/utils/metricsStore.js\<close>\<close>

text \<open>
  The class \<^verbatim>\<open>MetricsStore\<close> keeps one object \<^verbatim>\<open>this.metrics\<close> and mutates it
  in place. The embedding passes that object explicitly: every method takes the
  current value of \<^verbatim>\<open>this.metrics\<close> and returns the new one.

  JavaScript numbers are modelled as unbounded integers (counters, status codes,
  millisecond latencies, epoch milliseconds) and the two quotients handed to
  \<^verbatim>\<open>Math.round\<close> as exact rationals; the rounding of IEEE doubles is not
  modelled. The only non-finite number the class uses is \<^verbatim>\<open>Infinity\<close>, the
  initial value of \<^verbatim>\<open>minResponseTime\<close>.
\<close>

subsection \<open>Data\<close>

datatype number = Num int | Infinity

text \<open>\<^verbatim>\<open>a < b\<close> for a finite \<open>a\<close> and a \<open>b\<close> that may be \<^verbatim>\<open>Infinity\<close>.\<close>

fun less_number :: "int \<Rightarrow> number \<Rightarrow> bool" where
  "less_number a (Num b) = (a < b)"
| "less_number a Infinity = True"

text \<open>
  A timestamp is an ISO-8601 string that the store only ever reads through
  \<^verbatim>\<open>new Date(req.timestamp)\<close>; it is represented by the result of that
  conversion: the epoch milliseconds, or an invalid date (whose comparisons are
  all false).
\<close>

datatype date = ValidDate int | InvalidDate

text \<open>
  The argument of \<^verbatim>\<open>recordRequest\<close>. The property \<^verbatim>\<open>method\<close> is the field
  \<open>http_method\<close>, and \<^verbatim>\<open>ip\<close> may be undefined.
\<close>

record requestData =
  statusCode :: int
  responseTime :: int
  http_method :: string
  path :: string
  timestamp :: date
  ip :: "string option"
  userAgent :: string

text \<open>The entries of \<^verbatim>\<open>recentRequests\<close>.\<close>

record recentRequest =
  rr_method :: string
  rr_path :: string
  rr_statusCode :: int
  rr_responseTime :: int
  rr_timestamp :: date
  rr_ip :: string

record requests_obj =
  total :: int
  success :: int
  errors :: int
  perMinute :: int
  peakRPM :: int

record performance_obj =
  responseTimes :: "int list"
  averageResponseTime :: int
  minResponseTime :: number
  maxResponseTime :: int

record metrics_obj =
  requests :: requests_obj
  performance :: performance_obj
  recentRequests :: "recentRequest list"

subsection \<open>Constructor and \<^verbatim>\<open>resetMetrics\<close>\<close>

definition initial_metrics :: metrics_obj where
  "initial_metrics =
     \<lparr> requests = \<lparr> total = 0, success = 0, errors = 0, perMinute = 0, peakRPM = 0 \<rparr>,
       performance = \<lparr> responseTimes = [], averageResponseTime = 0,
                       minResponseTime = Infinity, maxResponseTime = 0 \<rparr>,
       recentRequests = [] \<rparr>"

text \<open>The object literal of \<^verbatim>\<open>resetMetrics\<close>, written out as the source does.\<close>

definition resetMetrics :: "metrics_obj \<Rightarrow> metrics_obj" where
  "resetMetrics m =
     \<lparr> requests = \<lparr> total = 0, success = 0, errors = 0, perMinute = 0, peakRPM = 0 \<rparr>,
       performance = \<lparr> responseTimes = [], averageResponseTime = 0,
                       minResponseTime = Infinity, maxResponseTime = 0 \<rparr>,
       recentRequests = [] \<rparr>"

subsection \<open>\<^verbatim>\<open>recordRequest\<close>\<close>

text \<open>\<^verbatim>\<open>Math.round\<close>: the nearest integer, a half rounding up.\<close>

definition Math_round :: "rat \<Rightarrow> int" where
  "Math_round x = \<lfloor>x + 1 / 2\<rfloor>"

text \<open>\<^verbatim>\<open>xs.slice(-n)\<close>: the last \<open>n\<close> elements.\<close>

definition slice_last :: "nat \<Rightarrow> 'a list \<Rightarrow> 'a list" where
  "slice_last n xs = drop (length xs - n) xs"

text \<open>\<^verbatim>\<open>ip?.substring(0, 10) + '...'\<close>; an undefined \<open>ip\<close> prints as \<^verbatim>\<open>undefined\<close>.\<close>

definition truncate_ip :: "string option \<Rightarrow> string" where
  "truncate_ip a = (case a of None \<Rightarrow> ''undefined'' | Some s \<Rightarrow> take 10 s) @ ''...''"

definition count_request :: "int \<Rightarrow> requests_obj \<Rightarrow> requests_obj" where
  "count_request code r =
     (let r1 = r\<lparr> total := total r + 1 \<rparr>
      in if code \<ge> 200 \<and> code < 400
         then r1\<lparr> success := success r1 + 1 \<rparr>
         else r1\<lparr> errors := errors r1 + 1 \<rparr>)"

definition update_performance :: "int \<Rightarrow> performance_obj \<Rightarrow> performance_obj" where
  "update_performance t p =
     (let pushed = responseTimes p @ [t];
          times = (if length pushed > 1000 then slice_last 1000 pushed else pushed);
          p1 = p\<lparr> responseTimes := times \<rparr>;
          p2 = (if less_number t (minResponseTime p1)
                then p1\<lparr> minResponseTime := Num t \<rparr> else p1);
          p3 = (if t > maxResponseTime p2 then p2\<lparr> maxResponseTime := t \<rparr> else p2);
          tot = foldl (\<lambda>sum time. sum + time) 0 (responseTimes p3)
      in p3\<lparr> averageResponseTime :=
               Math_round (of_int tot / of_int (int (length (responseTimes p3)))) \<rparr>)"

definition make_recentRequest :: "requestData \<Rightarrow> recentRequest" where
  "make_recentRequest d =
     \<lparr> rr_method = http_method d, rr_path = path d, rr_statusCode = statusCode d,
       rr_responseTime = responseTime d, rr_timestamp = timestamp d,
       rr_ip = truncate_ip (ip d) \<rparr>"

definition store_recent :: "recentRequest \<Rightarrow> recentRequest list \<Rightarrow> recentRequest list" where
  "store_recent r rs =
     (let unshifted = r # rs
      in if length unshifted > 50 then take 50 unshifted else unshifted)"

definition recordRequest :: "requestData \<Rightarrow> metrics_obj \<Rightarrow> metrics_obj" where
  "recordRequest d m =
     m\<lparr> requests := count_request (statusCode d) (requests m),
        performance := update_performance (responseTime d) (performance m),
        recentRequests := store_recent (make_recentRequest d) (recentRequests m) \<rparr>"

text \<open>A sequence of calls, the first element of the list first.\<close>

definition record_all :: "requestData list \<Rightarrow> metrics_obj \<Rightarrow> metrics_obj" where
  "record_all ds m = foldl (\<lambda>s d. recordRequest d s) m ds"

subsection \<open>\<^verbatim>\<open>calculateRequestsPerMinute\<close>\<close>

text \<open>
  The callback of the filter: \<^verbatim>\<open>new Date(req.timestamp) >= oneMinuteAgo\<close>. There
  is no upper bound, and an invalid date compares false.
\<close>

definition not_before :: "int \<Rightarrow> recentRequest \<Rightarrow> bool" where
  "not_before limit req =
     (case rr_timestamp req of ValidDate t \<Rightarrow> t \<ge> limit | InvalidDate \<Rightarrow> False)"

text \<open>The argument \<open>now\<close> is \<^verbatim>\<open>new Date().getTime()\<close> at the time of the call.\<close>

definition calculateRequestsPerMinute :: "int \<Rightarrow> metrics_obj \<Rightarrow> metrics_obj" where
  "calculateRequestsPerMinute now m =
     (let oneMinuteAgo = now - 60000;
          recent = filter (not_before oneMinuteAgo) (recentRequests m);
          r1 = (requests m)\<lparr> perMinute := int (length recent) \<rparr>;
          r2 = (if perMinute r1 > peakRPM r1 then r1\<lparr> peakRPM := perMinute r1 \<rparr> else r1)
      in m\<lparr> requests := r2 \<rparr>)"

subsection \<open>\<^verbatim>\<open>getMetrics\<close>, \<^verbatim>\<open>getHealthSummary\<close>, \<^verbatim>\<open>getMetricsForPeriod\<close>\<close>

text \<open>
  \<^verbatim>\<open>{ ...this.metrics, timestamp: new Date().toISOString() }\<close>: the three
  properties of the metrics object and one more. This is the value the caller reads;
  the sharing of the three nested objects is the subject of the store model below.
\<close>

record metrics_snapshot = metrics_obj +
  snapshot_timestamp :: string

definition getMetrics :: "string \<Rightarrow> metrics_obj \<Rightarrow> metrics_snapshot" where
  "getMetrics stamp m =
     \<lparr> requests = requests m, performance = performance m,
       recentRequests = recentRequests m, snapshot_timestamp = stamp \<rparr>"

record health_summary =
  healthy :: bool
  successRate :: int
  hs_averageResponseTime :: int
  totalRequests :: int
  hs_errors :: int

definition getHealthSummary :: "metrics_obj \<Rightarrow> health_summary" where
  "getHealthSummary m =
     (let totalRequests = total (requests m);
          successRate =
            (if totalRequests > 0
             then Math_round (of_int (success (requests m)) / of_int totalRequests * 100)
             else 100)
      in \<lparr> healthy = (successRate \<ge> 95 \<and> averageResponseTime (performance m) < 1000),
           successRate = successRate,
           hs_averageResponseTime = averageResponseTime (performance m),
           totalRequests = totalRequests,
           hs_errors = errors (requests m) \<rparr>)"

text \<open>
  The \<^verbatim>\<open>period\<close> string of the result is represented by the number it prints,
  and the two clock readings of the method are its arguments.
\<close>

record period_metrics =
  pm_minutes :: int
  pm_requests :: int
  pm_success :: int
  pm_errors :: int
  pm_successRate :: int
  pm_timestamp :: string

definition getMetricsForPeriod :: "int \<Rightarrow> int \<Rightarrow> string \<Rightarrow> metrics_obj \<Rightarrow> period_metrics" where
  "getMetricsForPeriod minutes now stamp m =
     (let periodAgo = now - minutes * 60000;
          periodRequests = filter (not_before periodAgo) (recentRequests m);
          periodSuccess =
            length (filter (\<lambda>req. rr_statusCode req \<ge> 200 \<and> rr_statusCode req < 400) periodRequests);
          periodErrors = length (filter (\<lambda>req. rr_statusCode req \<ge> 400) periodRequests)
      in \<lparr> pm_minutes = minutes,
           pm_requests = int (length periodRequests),
           pm_success = int periodSuccess,
           pm_errors = int periodErrors,
           pm_successRate =
             (if length periodRequests > 0
              then Math_round (of_int (int periodSuccess) / of_int (int (length periodRequests)) * 100)
              else 100),
           pm_timestamp = stamp \<rparr>)"

subsection \<open>Runs of the store\<close>

text \<open>
  The methods of the class, with their arguments. \<^verbatim>\<open>cleanup\<close> only clears the
  interval timer, which is not part of \<^verbatim>\<open>this.metrics\<close>.
\<close>

datatype operation =
    RecordRequest requestData
  | CalculateRequestsPerMinute int
  | GetMetrics string
  | ResetMetrics
  | GetHealthSummary
  | GetMetricsForPeriod int int string
  | Cleanup

text \<open>The effect of one call on \<^verbatim>\<open>this.metrics\<close>; the three getters only read.\<close>

fun step :: "operation \<Rightarrow> metrics_obj \<Rightarrow> metrics_obj" where
  "step (RecordRequest d) m = recordRequest d m"
| "step (CalculateRequestsPerMinute now) m = calculateRequestsPerMinute now m"
| "step (GetMetrics stamp) m = m"
| "step ResetMetrics m = resetMetrics m"
| "step GetHealthSummary m = m"
| "step (GetMetricsForPeriod minutes now stamp) m = m"
| "step Cleanup m = m"

definition run :: "operation list \<Rightarrow> metrics_obj \<Rightarrow> metrics_obj" where
  "run ops m = foldl (\<lambda>s op. step op s) m ops"

text \<open>The methods that write \<^verbatim>\<open>perMinute\<close> or \<^verbatim>\<open>peakRPM\<close>.\<close>

fun writes_rate :: "operation \<Rightarrow> bool" where
  "writes_rate (CalculateRequestsPerMinute now) = True"
| "writes_rate ResetMetrics = True"
| "writes_rate other = False"

subsection \<open>Reference values for the response times\<close>

text \<open>
  The least and the greatest element of a list of samples, against which the
  running \<^verbatim>\<open>minResponseTime\<close> and \<^verbatim>\<open>maxResponseTime\<close> are compared. The
  least element of no samples is \<open>Infinity\<close>; the greatest of no samples is not
  defined.
\<close>

definition true_min :: "int list \<Rightarrow> number" where
  "true_min xs = (if xs = [] then Infinity else Num (Min (set xs)))"

definition true_max :: "int list \<Rightarrow> int option" where
  "true_max xs = (if xs = [] then None else Some (Max (set xs)))"

text \<open>A request that differs from another only in status code and latency.\<close>

definition request :: "int \<Rightarrow> int \<Rightarrow> requestData" where
  "request code ms =
     \<lparr> statusCode = code, responseTime = ms, http_method = ''GET'', path = ''/api/status'',
       timestamp = ValidDate 0, ip = Some ''127.0.0.1'', userAgent = ''curl'' \<rparr>"

text \<open>
  A run that overflows the buffer of 1000 response times: a fast request, a slow
  one, and then 1000 requests of 10 ms.
\<close>

definition evicting_run :: "requestData list" where
  "evicting_run = request 200 5 # request 200 50 # replicate 1000 (request 200 10)"


text \<open>The scenario of the specification: three successes and one error.\<close>

definition scenario_run :: "requestData list" where
  "scenario_run = [request 200 100, request 200 200, request 200 300, request 500 500]"

subsection \<open>The trailing minute in the words of the specification\<close>



subsection \<open>The health criterion in the words of the specification\<close>



text \<open>The exact mean of a list of samples.\<close>

definition exact_mean :: "int list \<Rightarrow> rat" where
  "exact_mean xs = of_int (sum_list xs) / of_int (int (length xs))"

section \<open>The store with references\<close>

text \<open>
  \<^verbatim>\<open>this.metrics\<close> is an object whose three properties hold references: to the
  \<^verbatim>\<open>requests\<close> object, to the \<^verbatim>\<open>performance\<close> object (which in turn refers
  to the array \<^verbatim>\<open>responseTimes\<close>) and to the array \<^verbatim>\<open>recentRequests\<close>.
  To say what \<^verbatim>\<open>getMetrics\<close> shares with its caller, the objects are put in a
  store: one table per kind of object, indexed by references, and a counter
  \<open>next_ref\<close> from which new objects are allocated. Every method of the class
  reads and writes only what it reaches from \<^verbatim>\<open>this.metrics\<close>, so the value
  \<open>live\<close> read through that reference is the \<open>metrics_obj\<close> the functions above
  work on.
\<close>

type_synonym ref = nat

text \<open>
  An object with the properties \<^verbatim>\<open>requests\<close>, \<^verbatim>\<open>performance\<close>,
  \<^verbatim>\<open>recentRequests\<close> and, on the results of \<^verbatim>\<open>getMetrics\<close>, \<^verbatim>\<open>timestamp\<close>.
\<close>

record top_obj =
  requests_ref :: ref
  performance_ref :: ref
  recentRequests_ref :: ref
  timestamp_prop :: "string option"

record performance_cell =
  responseTimes_ref :: ref
  cell_averageResponseTime :: int
  cell_minResponseTime :: number
  cell_maxResponseTime :: int

record store =
  top_objs :: "ref \<Rightarrow> top_obj"
  requests_objs :: "ref \<Rightarrow> requests_obj"
  performance_objs :: "ref \<Rightarrow> performance_cell"
  number_arrays :: "ref \<Rightarrow> int list"
  record_arrays :: "ref \<Rightarrow> recentRequest list"
  next_ref :: ref
  this_metrics :: ref

text \<open>The value of the object at \<open>a\<close>, read through its references.\<close>

definition read_metrics :: "store \<Rightarrow> ref \<Rightarrow> metrics_obj" where
  "read_metrics s a =
     (let obj = top_objs s a;
          cell = performance_objs s (performance_ref obj)
      in \<lparr> requests = requests_objs s (requests_ref obj),
           performance =
             \<lparr> responseTimes = number_arrays s (responseTimes_ref cell),
               averageResponseTime = cell_averageResponseTime cell,
               minResponseTime = cell_minResponseTime cell,
               maxResponseTime = cell_maxResponseTime cell \<rparr>,
           recentRequests = record_arrays s (recentRequests_ref obj) \<rparr>)"

definition live :: "store \<Rightarrow> metrics_obj" where
  "live s = read_metrics s (this_metrics s)"

text \<open>What a caller reads from a result of \<^verbatim>\<open>getMetrics\<close> held at \<open>a\<close>.\<close>

definition read_snapshot :: "store \<Rightarrow> ref \<Rightarrow> metrics_snapshot option" where
  "read_snapshot s a =
     (case timestamp_prop (top_objs s a) of
        None \<Rightarrow> None
      | Some stamp \<Rightarrow> Some (getMetrics stamp (read_metrics s a)))"

text \<open>
  A store in which nothing has been allocated; the tables are total, and a reference
  at or above \<open>next_ref\<close> is unused.
\<close>

definition empty_store :: store where
  "empty_store =
     \<lparr> top_objs = (\<lambda>r. \<lparr> requests_ref = 0, performance_ref = 0, recentRequests_ref = 0,
                           timestamp_prop = None \<rparr>),
       requests_objs = (\<lambda>r. \<lparr> total = 0, success = 0, errors = 0, perMinute = 0, peakRPM = 0 \<rparr>),
       performance_objs = (\<lambda>r. \<lparr> responseTimes_ref = 0, cell_averageResponseTime = 0,
                                   cell_minResponseTime = Infinity, cell_maxResponseTime = 0 \<rparr>),
       number_arrays = (\<lambda>r. []),
       record_arrays = (\<lambda>r. []),
       next_ref = 0,
       this_metrics = 0 \<rparr>"

text \<open>
  The constructor evaluates its object literal inside out: the \<^verbatim>\<open>requests\<close>
  object (reference 0), the empty array \<^verbatim>\<open>responseTimes\<close> (1), the
  \<^verbatim>\<open>performance\<close> object (2), the empty array \<^verbatim>\<open>recentRequests\<close> (3), and
  the object that holds them (4), which becomes \<^verbatim>\<open>this.metrics\<close>.
\<close>

definition new_MetricsStore :: store where
  "new_MetricsStore =
     empty_store
       \<lparr> top_objs := (top_objs empty_store)
           (4 := \<lparr> requests_ref = 0, performance_ref = 2, recentRequests_ref = 3,
                   timestamp_prop = None \<rparr>),
         requests_objs := (requests_objs empty_store)
           (0 := \<lparr> total = 0, success = 0, errors = 0, perMinute = 0, peakRPM = 0 \<rparr>),
         performance_objs := (performance_objs empty_store)
           (2 := \<lparr> responseTimes_ref = 1, cell_averageResponseTime = 0,
                   cell_minResponseTime = Infinity, cell_maxResponseTime = 0 \<rparr>),
         number_arrays := (number_arrays empty_store)(1 := []),
         record_arrays := (record_arrays empty_store)(3 := []),
         next_ref := 5,
         this_metrics := 4 \<rparr>"

text \<open>
  \<^verbatim>\<open>getMetrics\<close>: the spread \<^verbatim>\<open>{ ...this.metrics, timestamp: ... }\<close> allocates
  one new object and copies the three references of \<^verbatim>\<open>this.metrics\<close> into it.
  The result is the reference to the new object and the store after the allocation.
\<close>

definition getMetrics_in_store :: "string \<Rightarrow> store \<Rightarrow> ref \<times> store" where
  "getMetrics_in_store stamp s =
     (let a = next_ref s;
          copy = (top_objs s (this_metrics s))\<lparr> timestamp_prop := Some stamp \<rparr>
      in (a, s\<lparr> top_objs := (top_objs s)(a := copy), next_ref := Suc a \<rparr>))"

text \<open>
  What a caller can do with the object at \<open>a\<close> that it was handed:
  \<^verbatim>\<open>snap.requests.total = v\<close>, \<^verbatim>\<open>snap.performance.responseTimes.push(v)\<close>,
  and any assignment to the properties of \<^verbatim>\<open>snap\<close> itself, after which the
  object at \<open>a\<close> is some \<open>obj\<close>.
\<close>

definition assign_requests_total :: "ref \<Rightarrow> int \<Rightarrow> store \<Rightarrow> store" where
  "assign_requests_total a v s =
     (let r = requests_ref (top_objs s a)
      in s\<lparr> requests_objs := (requests_objs s)(r := (requests_objs s r)\<lparr> total := v \<rparr>) \<rparr>)"

definition push_responseTimes :: "ref \<Rightarrow> int \<Rightarrow> store \<Rightarrow> store" where
  "push_responseTimes a v s =
     (let r = responseTimes_ref (performance_objs s (performance_ref (top_objs s a)))
      in s\<lparr> number_arrays := (number_arrays s)(r := number_arrays s r @ [v]) \<rparr>)"

definition assign_own_properties :: "ref \<Rightarrow> top_obj \<Rightarrow> store \<Rightarrow> store" where
  "assign_own_properties a obj s = s\<lparr> top_objs := (top_objs s)(a := obj) \<rparr>"

text \<open>A first call of \<^verbatim>\<open>getMetrics\<close> on a new store.\<close>

definition first_snapshot :: "ref \<times> store" where
  "first_snapshot = getMetrics_in_store ''2024-01-01T00:00:00.000Z'' new_MetricsStore"

section \<open>Request counters\<close>

lemma record_all_Nil [simp]: "record_all [] m = m"
  by (simp add: record_all_def)

lemma record_all_snoc: "record_all (ds @ [d]) m = recordRequest d (record_all ds m)"
  by (simp add: record_all_def)

lemma requests_recordRequest [simp]:
  "requests (recordRequest d m) = count_request (statusCode d) (requests m)"
  by (simp add: recordRequest_def)

lemma performance_recordRequest [simp]:
  "performance (recordRequest d m) = update_performance (responseTime d) (performance m)"
  by (simp add: recordRequest_def)

lemma recentRequests_recordRequest [simp]:
  "recentRequests (recordRequest d m) = store_recent (make_recentRequest d) (recentRequests m)"
  by (simp add: recordRequest_def)

lemma count_request_balance:
  "total (count_request code r) - (success (count_request code r) + errors (count_request code r))
     = total r - (success r + errors r)"
  by (simp add: count_request_def Let_def)

lemma record_all_balance:
  "total (requests (record_all ds m)) -
     (success (requests (record_all ds m)) + errors (requests (record_all ds m)))
   = total (requests m) - (success (requests m) + errors (requests m))"
proof (induction ds rule: rev_induct)
  case Nil
  show ?case by simp
next
  case (snoc d ds)
  then show ?case by (simp add: record_all_snoc count_request_balance)
qed

lemma total_record_all:
  "total (requests (record_all ds m)) = total (requests m) + int (length ds)"
  by (induction ds rule: rev_induct) (simp_all add: record_all_snoc count_request_def Let_def)

lemma success_record_all:
  "success (requests (record_all ds m)) = success (requests m) +
     int (length (filter (\<lambda>d. 200 \<le> statusCode d \<and> statusCode d < 400) ds))"
  by (induction ds rule: rev_induct) (simp_all add: record_all_snoc count_request_def Let_def)

lemma errors_record_all:
  "errors (requests (record_all ds m)) = errors (requests m) +
     int (length (filter (\<lambda>d. \<not> (200 \<le> statusCode d \<and> statusCode d < 400)) ds))"
  by (induction ds rule: rev_induct) (simp_all add: record_all_snoc count_request_def Let_def)

lemma scenario_total: "total (requests (record_all scenario_run initial_metrics)) = 4"
  by (simp add: total_record_all scenario_run_def initial_metrics_def)

lemma scenario_success: "success (requests (record_all scenario_run initial_metrics)) = 3"
  by (simp add: success_record_all scenario_run_def request_def initial_metrics_def)

lemma scenario_errors: "errors (requests (record_all scenario_run initial_metrics)) = 1"
  by (simp add: errors_record_all scenario_run_def request_def initial_metrics_def)

text \<open>
  C1. Starting from the freshly created store, after every sequence of
  \<^verbatim>\<open>recordRequest\<close> calls (so after each call of any run) the counter
  \<open>total\<close> equals \<open>success + errors\<close>.
\<close>

theorem C1_total_is_success_plus_errors:
  "total (requests (record_all ds initial_metrics)) =
     success (requests (record_all ds initial_metrics)) +
     errors (requests (record_all ds initial_metrics))"
  using record_all_balance [of ds initial_metrics]
  by (simp add: initial_metrics_def)

theorem C1_witness:
  "total (requests (record_all scenario_run initial_metrics)) = 4
   \<and> success (requests (record_all scenario_run initial_metrics)) +
       errors (requests (record_all scenario_run initial_metrics)) = 4"
  using C1_total_is_success_plus_errors [of scenario_run]
  by (simp add: scenario_total)

text \<open>
  C2. \<^verbatim>\<open>recordRequest\<close> with a status code from 200 to 399 inclusive adds one to
  \<open>success\<close> and leaves \<open>errors\<close>; with any other integer status code it adds one to
  \<open>errors\<close> and leaves \<open>success\<close>. In particular 199, 400 and 500 count as errors,
  200 and 399 as successes.
\<close>

theorem C2_status_code_classification:
  "success (requests (recordRequest d m)) =
     success (requests m) + (if 200 \<le> statusCode d \<and> statusCode d \<le> 399 then 1 else 0)
   \<and> errors (requests (recordRequest d m)) =
     errors (requests m) + (if 200 \<le> statusCode d \<and> statusCode d \<le> 399 then 0 else 1)
   \<and> count_request 199 r = r\<lparr> total := total r + 1, errors := errors r + 1 \<rparr>
   \<and> count_request 200 r = r\<lparr> total := total r + 1, success := success r + 1 \<rparr>
   \<and> count_request 399 r = r\<lparr> total := total r + 1, success := success r + 1 \<rparr>
   \<and> count_request 400 r = r\<lparr> total := total r + 1, errors := errors r + 1 \<rparr>
   \<and> count_request 500 r = r\<lparr> total := total r + 1, errors := errors r + 1 \<rparr>"
  by (simp add: count_request_def Let_def)

theorem C2_witness:
  "success (requests (recordRequest (request 399 0) initial_metrics)) = 1
   \<and> errors (requests (recordRequest (request 399 0) initial_metrics)) = 0"
  using C2_status_code_classification [of "request 399 0" initial_metrics]
  by (simp add: request_def initial_metrics_def)

section \<open>The list of recent requests\<close>

lemma store_recent_take: "store_recent r rs = take 50 (r # rs)"
  by (simp add: store_recent_def Let_def)

lemma recentRequests_record_all:
  "length (recentRequests m) \<le> 50 \<Longrightarrow>
   recentRequests (record_all ds m) =
     take 50 (rev (map make_recentRequest ds) @ recentRequests m)"
proof (induction ds rule: rev_induct)
  case Nil
  then show ?case by simp
next
  case (snoc d ds)
  have "take 50 (make_recentRequest d #
                 take 50 (rev (map make_recentRequest ds) @ recentRequests m))
      = take 50 (make_recentRequest d # (rev (map make_recentRequest ds) @ recentRequests m))"
    by (simp add: take_Cons' min_def)
  with snoc show ?case by (simp add: record_all_snoc store_recent_take)
qed

lemma recentRequests_from_initial:
  "recentRequests (record_all ds initial_metrics) = take 50 (rev (map make_recentRequest ds))"
  using recentRequests_record_all [of initial_metrics ds] by (simp add: initial_metrics_def)

text \<open>
  C7. After every sequence of \<^verbatim>\<open>recordRequest\<close> calls on a new store,
  \<open>recentRequests\<close> has at most 50 entries (exactly \<open>min n 50\<close> after \<open>n\<close> calls), it is
  the list of recorded entries latest first, cut after 50, and so it consists of
  exactly the last 50 calls (all of them when there were fewer), the oldest
  dropped first.
\<close>

theorem C7_recent_requests_bounded_latest_first:
  "length (recentRequests (record_all ds initial_metrics)) \<le> 50
   \<and> length (recentRequests (record_all ds initial_metrics)) = min (length ds) 50
   \<and> recentRequests (record_all ds initial_metrics) = take 50 (rev (map make_recentRequest ds))
   \<and> recentRequests (record_all ds initial_metrics) =
       rev (map make_recentRequest (drop (length ds - 50) ds))"
proof -
  have "take 50 (rev (map make_recentRequest ds)) =
          rev (map make_recentRequest (drop (length ds - 50) ds))"
    by (simp add: take_rev drop_map flip: rev_map)
  moreover have "length (take 50 (rev (map make_recentRequest ds))) = min (length ds) 50"
    by simp
  ultimately show ?thesis by (simp only: recentRequests_from_initial) simp
qed

theorem C7_witness:
  "length (recentRequests (record_all (replicate 51 (request 200 1) @ [request 404 2]) initial_metrics)) = 50
   \<and> recentRequests (record_all (replicate 51 (request 200 1) @ [request 404 2]) initial_metrics) =
       make_recentRequest (request 404 2) # replicate 49 (make_recentRequest (request 200 1))"
  using C7_recent_requests_bounded_latest_first [of "replicate 51 (request 200 1) @ [request 404 2]"]
  by (simp add: rev_replicate)

section \<open>Reset\<close>

text \<open>
  C9. \<^verbatim>\<open>resetMetrics\<close> puts the store back into the state the constructor
  creates: all five counters zero, both buffers empty, the average zero, the minimum
  \<open>Infinity\<close> and the maximum zero; and \<^verbatim>\<open>recordRequest\<close> after a reset yields the
  state it yields on a new store.
\<close>

theorem C9_reset_is_fresh:
  "resetMetrics m = initial_metrics
   \<and> requests (resetMetrics m) =
       \<lparr> total = 0, success = 0, errors = 0, perMinute = 0, peakRPM = 0 \<rparr>
   \<and> responseTimes (performance (resetMetrics m)) = []
   \<and> recentRequests (resetMetrics m) = []
   \<and> averageResponseTime (performance (resetMetrics m)) = 0
   \<and> minResponseTime (performance (resetMetrics m)) = Infinity
   \<and> maxResponseTime (performance (resetMetrics m)) = 0
   \<and> recordRequest d (resetMetrics m) = recordRequest d initial_metrics"
  by (simp add: resetMetrics_def initial_metrics_def)

theorem C9_witness:
  "resetMetrics (record_all scenario_run initial_metrics) = initial_metrics
   \<and> recordRequest (request 200 7) (resetMetrics (record_all scenario_run initial_metrics)) =
       recordRequest (request 200 7) initial_metrics"
  using C9_reset_is_fresh [of "record_all scenario_run initial_metrics" "request 200 7"]
  by simp

section \<open>Response times\<close>

lemma slice_last_short: "length xs \<le> n \<Longrightarrow> slice_last n xs = xs"
  by (simp add: slice_last_def)

lemma slice_last_snoc: "slice_last n (slice_last n xs @ [x]) = slice_last n (xs @ [x])"
proof (cases "length xs \<le> n")
  case True
  then show ?thesis by (simp add: slice_last_def)
next
  case False
  then have "Suc (length xs) - n = Suc (length xs - n)" by simp
  with False show ?thesis by (simp add: slice_last_def)
qed

lemma responseTimes_update:
  "responseTimes (update_performance t p) = slice_last 1000 (responseTimes p @ [t])"
  by (simp add: update_performance_def Let_def slice_last_short)

lemma minResponseTime_update:
  "minResponseTime (update_performance t p) =
     (if less_number t (minResponseTime p) then Num t else minResponseTime p)"
  by (simp add: update_performance_def Let_def)

lemma maxResponseTime_update:
  "maxResponseTime (update_performance t p) =
     (if t > maxResponseTime p then t else maxResponseTime p)"
  by (simp add: update_performance_def Let_def)

lemma foldl_plus: "foldl (\<lambda>sum time. sum + time) a xs = a + sum_list xs" for a :: int
  by (induction xs arbitrary: a) simp_all

lemma averageResponseTime_update:
  "averageResponseTime (update_performance t p) =
     Math_round (exact_mean (responseTimes (update_performance t p)))"
  by (simp add: update_performance_def Let_def foldl_plus exact_mean_def)

lemma responseTimes_record_all:
  assumes "length (responseTimes (performance m)) \<le> 1000"
  shows "responseTimes (performance (record_all ds m)) =
           slice_last 1000 (responseTimes (performance m) @ map responseTime ds)"
proof (induction ds rule: rev_induct)
  case Nil
  show ?case using assms by (simp add: slice_last_short)
next
  case (snoc d ds)
  then show ?case by (simp add: record_all_snoc responseTimes_update slice_last_snoc)
qed

lemma responseTimes_from_initial:
  "responseTimes (performance (record_all ds initial_metrics)) =
     slice_last 1000 (map responseTime ds)"
  using responseTimes_record_all [of initial_metrics ds] by (simp add: initial_metrics_def)

lemma true_min_snoc:
  "(if less_number t (true_min xs) then Num t else true_min xs) = true_min (xs @ [t])"
proof (cases "xs = []")
  case True
  then show ?thesis by (simp add: true_min_def)
next
  case False
  then have m: "Min (insert t (set xs)) = min t (Min (set xs))"
    by (simp add: Min_insert)
  have pick: "(if less_number t (Num b) then Num t else Num b) = Num (min t b)" for b
    by (simp add: min_def)
  have "true_min (xs @ [t]) = Num (min t (Min (set xs)))"
    using m by (simp add: true_min_def)
  moreover have "true_min xs = Num (Min (set xs))"
    using False by (simp add: true_min_def)
  ultimately show ?thesis by (simp only: pick)
qed

lemma minResponseTime_from_initial:
  "minResponseTime (performance (record_all ds initial_metrics)) =
     true_min (map responseTime ds)"
proof (induction ds rule: rev_induct)
  case Nil
  show ?case by (simp add: initial_metrics_def true_min_def)
next
  case (snoc d ds)
  then show ?case by (simp add: record_all_snoc minResponseTime_update flip: true_min_snoc)
qed

lemma running_max_snoc:
  "max t (Max (insert 0 (set xs))) = Max (insert 0 (set (xs @ [t])))" for t :: int
proof -
  have "Max (insert t (insert 0 (set xs))) = max t (Max (insert 0 (set xs)))"
    by (rule Max_insert) simp_all
  moreover have "insert t (insert 0 (set xs)) = insert 0 (set (xs @ [t]))"
    by auto
  ultimately show ?thesis by (simp only:)
qed

lemma maxResponseTime_from_initial:
  "maxResponseTime (performance (record_all ds initial_metrics)) =
     Max (insert 0 (set (map responseTime ds)))"
proof (induction ds rule: rev_induct)
  case Nil
  show ?case by (simp add: initial_metrics_def)
next
  case (snoc d ds)
  have "maxResponseTime (performance (record_all (ds @ [d]) initial_metrics)) =
          max (responseTime d) (maxResponseTime (performance (record_all ds initial_metrics)))"
    by (simp add: record_all_snoc maxResponseTime_update max_def)
  also have "\<dots> = max (responseTime d) (Max (insert 0 (set (map responseTime ds))))"
    by (simp only: snoc)
  also have "\<dots> = Max (insert 0 (set (map responseTime ds @ [responseTime d])))"
    by (rule running_max_snoc)
  finally show ?case by simp
qed

lemma responseTimes_evicting_run:
  "responseTimes (performance (record_all evicting_run initial_metrics)) = replicate 1000 10"
  by (simp add: responseTimes_from_initial evicting_run_def request_def slice_last_def)

text \<open>
  C3, as claimed, fails. After \<open>evicting_run\<close> the buffer holds 1000 samples of
  10 ms, whose least and greatest element is 10, while \<open>minResponseTime\<close> is still
  5 and \<open>maxResponseTime\<close> still 50: the two samples that were evicted.
\<close>

theorem C3_counterexample:
  "responseTimes (performance (record_all evicting_run initial_metrics)) = replicate 1000 10
   \<and> minResponseTime (performance (record_all evicting_run initial_metrics)) = Num 5
   \<and> true_min (responseTimes (performance (record_all evicting_run initial_metrics))) = Num 10
   \<and> maxResponseTime (performance (record_all evicting_run initial_metrics)) = 50
   \<and> true_max (responseTimes (performance (record_all evicting_run initial_metrics))) = Some 10"
proof -
  have "minResponseTime (performance (record_all evicting_run initial_metrics)) = Num 5"
    by (simp add: minResponseTime_from_initial evicting_run_def request_def true_min_def)
  moreover have "maxResponseTime (performance (record_all evicting_run initial_metrics)) = 50"
    by (simp add: maxResponseTime_from_initial evicting_run_def request_def)
  moreover have "true_min (replicate 1000 10) = Num 10"
    by (simp add: true_min_def)
  moreover have "true_max (replicate 1000 10) = Some 10"
    by (simp add: true_max_def)
  ultimately show ?thesis by (simp only: responseTimes_evicting_run)
qed

text \<open>
  C3, amended. After every sequence of \<^verbatim>\<open>recordRequest\<close> calls on a new store,
  \<open>minResponseTime\<close> is the least of all response times recorded since the store
  was created (\<open>Infinity\<close> when there are none) and \<open>maxResponseTime\<close> is the
  greatest of all of them and of the initial value 0, whether or not the samples
  are still in the buffer. As long as no more than 1000 samples have been recorded
  the buffer holds all of them, so these are then the extremes of the buffered
  samples.
\<close>

theorem C3_running_extremes_of_all_samples:
  "minResponseTime (performance (record_all ds initial_metrics)) =
     true_min (map responseTime ds)
   \<and> maxResponseTime (performance (record_all ds initial_metrics)) =
     Max (insert 0 (set (map responseTime ds)))
   \<and> (length ds \<le> 1000 \<longrightarrow>
        responseTimes (performance (record_all ds initial_metrics)) = map responseTime ds)"
  by (simp add: minResponseTime_from_initial maxResponseTime_from_initial
      responseTimes_from_initial slice_last_short)

theorem C3_witness:
  "minResponseTime (performance (record_all [request 200 7, request 200 3] initial_metrics)) = Num 3
   \<and> maxResponseTime (performance (record_all [request 200 7, request 200 3] initial_metrics)) = 7
   \<and> responseTimes (performance (record_all [request 200 7, request 200 3] initial_metrics)) = [7, 3]"
  using C3_running_extremes_of_all_samples [of "[request 200 7, request 200 3]"]
  by (simp add: request_def true_min_def)

lemma Math_round_div:
  "0 < n \<Longrightarrow> Math_round (of_int a / of_int n) = (2 * a + n) div (2 * n)"
proof -
  assume n: "0 < n"
  have "(of_int a / of_int n + 1 / 2 :: rat) = of_int (2 * a + n) / of_int (2 * n)"
    using n by (simp add: field_simps)
  then show ?thesis
    unfolding Math_round_def by (simp only: floor_divide_of_int_eq)
qed

lemma Math_round_exact_mean:
  "xs \<noteq> [] \<Longrightarrow>
   Math_round (exact_mean xs) = (2 * sum_list xs + int (length xs)) div (2 * int (length xs))"
  unfolding exact_mean_def by (rule Math_round_div) simp

lemma record_all_nonempty:
  "ds \<noteq> [] \<Longrightarrow>
   averageResponseTime (performance (record_all ds m)) =
     Math_round (exact_mean (responseTimes (performance (record_all ds m))))"
  by (cases ds rule: rev_cases) (simp_all add: record_all_snoc averageResponseTime_update)

lemma average_from_initial:
  assumes "ds \<noteq> []" and "length ds \<le> 1000"
  shows "averageResponseTime (performance (record_all ds initial_metrics)) =
     (2 * sum_list (map responseTime ds) + int (length ds)) div (2 * int (length ds))"
proof -
  have "responseTimes (performance (record_all ds initial_metrics)) = map responseTime ds"
    using assms(2) by (simp add: responseTimes_from_initial slice_last_short)
  moreover have "map responseTime ds \<noteq> []" using assms(1) by simp
  ultimately show ?thesis
    using record_all_nonempty [OF assms(1), of initial_metrics]
      Math_round_exact_mean [of "map responseTime ds"] by simp
qed

lemma two_samples_buffer:
  "responseTimes (performance (record_all [request 200 1, request 200 2] initial_metrics)) = [1, 2]"
  by (simp add: responseTimes_from_initial slice_last_def request_def)

lemma two_samples_average:
  "averageResponseTime (performance (record_all [request 200 1, request 200 2] initial_metrics)) = 2"
  using average_from_initial [of "[request 200 1, request 200 2]"]
  by (simp add: request_def)

lemma responseTimes_nonempty:
  "ds \<noteq> [] \<Longrightarrow> responseTimes (performance (record_all ds initial_metrics)) \<noteq> []"
proof -
  assume "ds \<noteq> []"
  then have "0 < length ds" by simp
  then have "length ds - 1000 < length ds" by arith
  then show ?thesis by (simp add: responseTimes_from_initial slice_last_def)
qed

text \<open>
  C5, as claimed, fails. After two requests of 1 ms and 2 ms the buffer is
  \<open>[1, 2]\<close>, whose mean is 3/2, and \<open>averageResponseTime\<close> is 2.
\<close>

theorem C5_counterexample:
  "responseTimes (performance (record_all [request 200 1, request 200 2] initial_metrics)) = [1, 2]
   \<and> averageResponseTime (performance (record_all [request 200 1, request 200 2] initial_metrics)) = 2
   \<and> exact_mean [1, 2] = 3 / 2
   \<and> of_int (averageResponseTime
               (performance (record_all [request 200 1, request 200 2] initial_metrics))) \<noteq>
       exact_mean (responseTimes
               (performance (record_all [request 200 1, request 200 2] initial_metrics)))"
proof -
  have "exact_mean [1, 2] = 3 / 2"
    by (simp add: exact_mean_def)
  then show ?thesis
    by (simp only: two_samples_buffer two_samples_average) simp
qed

text \<open>
  C5, amended. After every non-empty sequence of \<^verbatim>\<open>recordRequest\<close> calls on a
  new store, the buffer \<open>responseTimes\<close> holds the latest \<open>min n 1000\<close> response
  times in the order of recording (the oldest evicted first), and
  \<open>averageResponseTime\<close> is the mean of the buffer rounded to the nearest integer, a
  half rounding up: \<^verbatim>\<open>Math.round(sum / count)\<close>, which is
  \<open>(2 * sum + count) div (2 * count)\<close>. In the scenario of three successes of 100,
  200 and 300 ms and one error of 500 ms the result is total 4, success 3, errors 1,
  average 275, minimum 100, maximum 500.
\<close>

theorem C5_average_is_rounded_mean_of_buffer:
  "(ds \<noteq> [] \<longrightarrow>
      responseTimes (performance (record_all ds initial_metrics)) =
        drop (length ds - 1000) (map responseTime ds)
      \<and> length (responseTimes (performance (record_all ds initial_metrics))) = min (length ds) 1000
      \<and> averageResponseTime (performance (record_all ds initial_metrics)) =
          Math_round (exact_mean (responseTimes (performance (record_all ds initial_metrics))))
      \<and> averageResponseTime (performance (record_all ds initial_metrics)) =
          (2 * sum_list (responseTimes (performance (record_all ds initial_metrics)))
             + int (length (responseTimes (performance (record_all ds initial_metrics)))))
          div (2 * int (length (responseTimes (performance (record_all ds initial_metrics))))))
   \<and> total (requests (record_all scenario_run initial_metrics)) = 4
   \<and> success (requests (record_all scenario_run initial_metrics)) = 3
   \<and> errors (requests (record_all scenario_run initial_metrics)) = 1
   \<and> averageResponseTime (performance (record_all scenario_run initial_metrics)) = 275
   \<and> minResponseTime (performance (record_all scenario_run initial_metrics)) = Num 100
   \<and> maxResponseTime (performance (record_all scenario_run initial_metrics)) = 500"
proof -
  have general:
    "responseTimes (performance (record_all ds initial_metrics)) =
        drop (length ds - 1000) (map responseTime ds)
      \<and> length (responseTimes (performance (record_all ds initial_metrics))) = min (length ds) 1000
      \<and> averageResponseTime (performance (record_all ds initial_metrics)) =
          Math_round (exact_mean (responseTimes (performance (record_all ds initial_metrics))))
      \<and> averageResponseTime (performance (record_all ds initial_metrics)) =
          (2 * sum_list (responseTimes (performance (record_all ds initial_metrics)))
             + int (length (responseTimes (performance (record_all ds initial_metrics)))))
          div (2 * int (length (responseTimes (performance (record_all ds initial_metrics)))))"
    if "ds \<noteq> []"
  proof -
    have buf: "responseTimes (performance (record_all ds initial_metrics)) =
                 drop (length ds - 1000) (map responseTime ds)"
      by (simp add: responseTimes_from_initial slice_last_def)
    have len: "length (responseTimes (performance (record_all ds initial_metrics))) =
                 min (length ds) 1000"
      by (simp add: buf)
    have avg: "averageResponseTime (performance (record_all ds initial_metrics)) =
                 Math_round (exact_mean (responseTimes (performance (record_all ds initial_metrics))))"
      using that by (rule record_all_nonempty)
    have "Math_round (exact_mean (responseTimes (performance (record_all ds initial_metrics)))) =
          (2 * sum_list (responseTimes (performance (record_all ds initial_metrics)))
             + int (length (responseTimes (performance (record_all ds initial_metrics)))))
          div (2 * int (length (responseTimes (performance (record_all ds initial_metrics)))))"
      using that by (intro Math_round_exact_mean responseTimes_nonempty)
    with buf len avg show ?thesis by (simp only:)
  qed
  have 4: "averageResponseTime (performance (record_all scenario_run initial_metrics)) = 275"
    using average_from_initial [of scenario_run] by (simp add: scenario_run_def request_def)
  have 5: "minResponseTime (performance (record_all scenario_run initial_metrics)) = Num 100"
    by (simp add: minResponseTime_from_initial scenario_run_def request_def true_min_def)
  have 6: "maxResponseTime (performance (record_all scenario_run initial_metrics)) = 500"
    by (simp add: maxResponseTime_from_initial scenario_run_def request_def)
  from general scenario_total scenario_success scenario_errors 4 5 6 show ?thesis by blast
qed

theorem C5_witness:
  "[request 200 1, request 200 2] \<noteq> []
   \<and> averageResponseTime (performance (record_all [request 200 1, request 200 2] initial_metrics)) =
       Math_round (exact_mean [1, 2])"
proof -
  have "[request 200 1, request 200 2] \<noteq> []" by simp
  with C5_average_is_rounded_mean_of_buffer [of "[request 200 1, request 200 2]"]
  show ?thesis by (simp only: two_samples_buffer) simp
qed

section \<open>The health summary\<close>








section \<open>Requests per minute\<close>

lemma perMinute_calculate:
  "perMinute (requests (calculateRequestsPerMinute now m)) =
     int (length (filter (not_before (now - 60000)) (recentRequests m)))"
  by (simp add: calculateRequestsPerMinute_def Let_def)

lemma peakRPM_calculate:
  "peakRPM (requests (calculateRequestsPerMinute now m)) =
     max (peakRPM (requests m))
         (int (length (filter (not_before (now - 60000)) (recentRequests m))))"
  by (simp add: calculateRequestsPerMinute_def Let_def max_def)

lemma run_Nil [simp]: "run [] m = m"
  by (simp add: run_def)

lemma run_snoc [simp]: "run (ops @ [op]) m = step op (run ops m)"
  by (simp add: run_def)










text \<open>
  C10. \<^verbatim>\<open>recordRequest\<close> leaves \<open>perMinute\<close> and \<open>peakRPM\<close> as they are, for every
  request and every state, and so does every method other than
  \<^verbatim>\<open>calculateRequestsPerMinute\<close> and \<^verbatim>\<open>resetMetrics\<close>.
\<close>

theorem C10_recordRequest_keeps_rate_fields:
  "perMinute (requests (recordRequest d m)) = perMinute (requests m)
   \<and> peakRPM (requests (recordRequest d m)) = peakRPM (requests m)
   \<and> (\<not> writes_rate op \<longrightarrow>
        perMinute (requests (step op m)) = perMinute (requests m)
        \<and> peakRPM (requests (step op m)) = peakRPM (requests m))"
proof -
  have "\<not> writes_rate op \<longrightarrow>
        perMinute (requests (step op m)) = perMinute (requests m)
        \<and> peakRPM (requests (step op m)) = peakRPM (requests m)"
    by (cases op) (simp_all add: count_request_def Let_def)
  then show ?thesis by (simp add: count_request_def Let_def)
qed

theorem C10_witness:
  "\<not> writes_rate (GetMetrics [])
   \<and> perMinute (requests (recordRequest (request 200 1)
       (calculateRequestsPerMinute 1000 (record_all [request 200 1, request 404 2] initial_metrics)))) = 2
   \<and> peakRPM (requests (recordRequest (request 200 1)
       (calculateRequestsPerMinute 1000 (record_all [request 200 1, request 404 2] initial_metrics)))) = 2"
proof -
  have n: "length (filter (not_before (1000 - 60000))
             (recentRequests (record_all [request 200 1, request 404 2] initial_metrics))) = 2"
    by (simp add: recentRequests_from_initial not_before_def make_recentRequest_def request_def)
  have p: "perMinute (requests
          (calculateRequestsPerMinute 1000 (record_all [request 200 1, request 404 2] initial_metrics))) = 2"
    by (simp only: perMinute_calculate n of_nat_numeral)
  have "peakRPM (requests (record_all [request 200 1, request 404 2] initial_metrics)) \<le> 2"
    by (simp add: record_all_def count_request_def Let_def initial_metrics_def)
  then have q: "peakRPM (requests
          (calculateRequestsPerMinute 1000 (record_all [request 200 1, request 404 2] initial_metrics))) = 2"
    by (simp only: peakRPM_calculate n of_nat_numeral)
  from p q show ?thesis
    using C10_recordRequest_keeps_rate_fields [of "request 200 1"
      "calculateRequestsPerMinute 1000 (record_all [request 200 1, request 404 2] initial_metrics)"
      "GetMetrics []"]
    by simp
qed

section \<open>What \<^verbatim>\<open>getMetrics\<close> shares with its caller\<close>

lemma live_new_MetricsStore: "live new_MetricsStore = initial_metrics"
  by (simp add: live_def read_metrics_def new_MetricsStore_def empty_store_def
      initial_metrics_def Let_def)

text \<open>
  C6, as claimed, fails. The object returned by the first \<^verbatim>\<open>getMetrics\<close> on a new
  store refers to the very \<^verbatim>\<open>requests\<close> object and the very array
  \<^verbatim>\<open>responseTimes\<close> of the store. After the caller's
  \<^verbatim>\<open>snap.requests.total = 10\<close> the store's own counter is 10 and
  \<^verbatim>\<open>getHealthSummary\<close>, healthy before, reports unhealthy; after the caller's
  \<^verbatim>\<open>snap.performance.responseTimes.push(7)\<close> the store's buffer holds 7.
\<close>

theorem C6_counterexample:
  "live (snd first_snapshot) = initial_metrics
   \<and> healthy (getHealthSummary (live (snd first_snapshot)))
   \<and> total (requests (live (assign_requests_total (fst first_snapshot) 10 (snd first_snapshot)))) = 10
   \<and> \<not> healthy (getHealthSummary
          (live (assign_requests_total (fst first_snapshot) 10 (snd first_snapshot))))
   \<and> responseTimes (performance
          (live (push_responseTimes (fst first_snapshot) 7 (snd first_snapshot)))) = [7]"
  by (simp add: first_snapshot_def getMetrics_in_store_def new_MetricsStore_def empty_store_def
      Let_def live_def read_metrics_def assign_requests_total_def push_responseTimes_def
      getHealthSummary_def Math_round_def initial_metrics_def)

text \<open>
  C6, amended. In every store whose \<^verbatim>\<open>this.metrics\<close> has been allocated,
  \<^verbatim>\<open>getMetrics\<close> returns a newly allocated object, different from
  \<^verbatim>\<open>this.metrics\<close>, whose value read through its references is the current
  state together with the fresh timestamp; the call leaves the state of the store
  unchanged, and so does any later assignment to the properties of the returned
  object itself. The three properties \<^verbatim>\<open>requests\<close>, \<^verbatim>\<open>performance\<close> and
  \<^verbatim>\<open>recentRequests\<close> of the returned object are the same references as those of
  \<^verbatim>\<open>this.metrics\<close>: the nested objects and arrays are shared, not copied.
\<close>

theorem C6_getMetrics_shallow_copy:
  assumes "this_metrics s < next_ref s"
  shows "fst (getMetrics_in_store stamp s) = next_ref s
    \<and> fst (getMetrics_in_store stamp s) \<noteq> this_metrics s
    \<and> this_metrics (snd (getMetrics_in_store stamp s)) = this_metrics s
    \<and> live (snd (getMetrics_in_store stamp s)) = live s
    \<and> read_snapshot (snd (getMetrics_in_store stamp s)) (fst (getMetrics_in_store stamp s))
        = Some (getMetrics stamp (live s))
    \<and> live (assign_own_properties (fst (getMetrics_in_store stamp s)) obj
              (snd (getMetrics_in_store stamp s))) = live s
    \<and> requests_ref (top_objs (snd (getMetrics_in_store stamp s)) (fst (getMetrics_in_store stamp s)))
        = requests_ref (top_objs s (this_metrics s))
    \<and> performance_ref (top_objs (snd (getMetrics_in_store stamp s)) (fst (getMetrics_in_store stamp s)))
        = performance_ref (top_objs s (this_metrics s))
    \<and> recentRequests_ref (top_objs (snd (getMetrics_in_store stamp s)) (fst (getMetrics_in_store stamp s)))
        = recentRequests_ref (top_objs s (this_metrics s))"
  using assms
  by (simp add: getMetrics_in_store_def Let_def live_def read_metrics_def read_snapshot_def
      assign_own_properties_def getMetrics_def)

theorem C6_witness:
  "this_metrics new_MetricsStore < next_ref new_MetricsStore
   \<and> fst first_snapshot = 5
   \<and> live (snd first_snapshot) = initial_metrics
   \<and> read_snapshot (snd first_snapshot) (fst first_snapshot) =
       Some (getMetrics ''2024-01-01T00:00:00.000Z'' initial_metrics)"
proof -
  have a: "this_metrics new_MetricsStore < next_ref new_MetricsStore"
    by (simp add: new_MetricsStore_def)
  have b: "next_ref new_MetricsStore = 5"
    by (simp add: new_MetricsStore_def)
  note c = C6_getMetrics_shallow_copy [OF a, of "''2024-01-01T00:00:00.000Z''"
      "top_objs new_MetricsStore (this_metrics new_MetricsStore)",
      unfolded live_new_MetricsStore b, folded first_snapshot_def]
  from a c show ?thesis
    by blast
qed

end
